theory Spec2Isabelle
  imports Complex_Main
begin

section \<open>Opacity preview field (\<open>OpacityPreview\<close>)\<close>

text \<open>
  A JavaScript number is an IEEE 754 double: NaN, an infinity with its sign, or a finite
  value given by its sign (\<open>True\<close> for minus) and its magnitude, a rational that a double
  can hold; zero has a sign. Strings are \<open>char list\<close>s over the code units below 256.
\<close>

datatype number = NaN | Infinity bool | Finite bool rat

definition pow2 :: "int \<Rightarrow> rat" where
  "pow2 e = (if 0 \<le> e then 2 ^ nat e else 1 / 2 ^ nat (- e))"

function bit_length :: "int \<Rightarrow> int" where
  "bit_length n = (if n \<le> 0 then 0 else 1 + bit_length (n div 2))"
  by pat_completeness auto
termination
  by (relation "measure nat") auto

declare bit_length.simps [simp del]

text \<open>The integer nearest to \<open>num / den\<close>, a tie going to the even one.\<close>

definition round_half_even :: "int \<Rightarrow> int \<Rightarrow> int" where
  "round_half_even num den =
     (let d = num div den; r = num mod den
      in if 2 * r < den then d else if den < 2 * r then d + 1 else if even d then d else d + 1)"

text \<open>
  The double nearest to the magnitude \<open>p / q\<close> (for \<open>0 \<le> p\<close> and \<open>0 < q\<close>), ties to the
  even significand: the significand has 53 bits, the exponent \<open>e\<close> of its last bit is at
  least \<open>-1074\<close>, and a result of \<open>2^1024\<close> or more is an infinity.
\<close>

definition round_to_double :: "bool \<Rightarrow> int \<Rightarrow> int \<Rightarrow> number" where
  "round_to_double sg p q =
     (if p = 0 then Finite sg 0
      else let e0 = bit_length p - bit_length q - 53;
               e1 = (if 2 ^ 53 * (q * 2 ^ nat e0) \<le> p * 2 ^ nat (- e0) then e0 + 1 else e0);
               e = max e1 (- 1074);
               m = round_half_even (p * 2 ^ nat (- e)) (q * 2 ^ nat e);
               y = of_int m * pow2 e
           in if 2 ^ 1024 \<le> y then Infinity sg else Finite sg y)"

text \<open>The operator \<open>/\<close> on numbers.\<close>

fun divide_number :: "number \<Rightarrow> number \<Rightarrow> number" where
  "divide_number NaN _ = NaN"
| "divide_number _ NaN = NaN"
| "divide_number (Infinity s) (Infinity t) = NaN"
| "divide_number (Infinity s) (Finite t y) = Infinity (s \<noteq> t)"
| "divide_number (Finite s x) (Infinity t) = Finite (s \<noteq> t) 0"
| "divide_number (Finite s x) (Finite t y) =
     (if y = 0 then (if x = 0 then NaN else Infinity (s \<noteq> t))
      else (let (a, b) = quotient_of x; (c, d) = quotient_of y
            in round_to_double (s \<noteq> t) (a * d) (b * c)))"

fun isNaN :: "number \<Rightarrow> bool" where
  "isNaN NaN = True"
| "isNaN _ = False"

text \<open>\<open>Number.isInteger(n)\<close> and \<open>0 <= n\<close>.\<close>

fun isInteger :: "number \<Rightarrow> bool" where
  "isInteger (Finite s x) = (x = of_int \<lfloor>x\<rfloor>)"
| "isInteger _ = False"

fun nonNegative :: "number \<Rightarrow> bool" where
  "nonNegative NaN = False"
| "nonNegative (Infinity s) = (\<not> s)"
| "nonNegative (Finite s x) = (\<not> s \<or> x = 0)"

text \<open>
  \<open>parseInt(string)\<close> with no radix argument, after ECMAScript: leading white space is
  dropped, one sign is read, a \<open>0x\<close>/\<open>0X\<close> prefix selects radix 16 (otherwise 10), and the
  longest prefix of digits of that radix is read as an integer; the result is the double
  nearest to it, with the sign (so \<open>-0\<close> is minus zero), and NaN when there is no digit.
  All digits are read; ECMAScript also allows an implementation to take decimal digits
  after the twentieth as zeros.
\<close>

definition isWhiteSpace :: "char \<Rightarrow> bool" where
  "isWhiteSpace c \<longleftrightarrow>
     c \<in> set [CHR 0x09, CHR 0x0A, CHR 0x0B, CHR 0x0C, CHR 0x0D, CHR 0x20, CHR 0xA0]"

definition digitValue :: "char \<Rightarrow> int" where
  "digitValue c =
     (let n = (of_char c :: int)
      in if 48 \<le> n \<and> n \<le> 57 then n - 48
         else if 97 \<le> n \<and> n \<le> 122 then n - 87
         else if 65 \<le> n \<and> n \<le> 90 then n - 55
         else 36)"

definition isRadixDigit :: "int \<Rightarrow> char \<Rightarrow> bool" where
  "isRadixDigit R c \<longleftrightarrow> digitValue c < R"

definition digitsValue :: "int \<Rightarrow> string \<Rightarrow> int" where
  "digitsValue R Z = foldl (\<lambda>acc c. acc * R + digitValue c) 0 Z"

definition parseInt :: "string \<Rightarrow> number" where
  "parseInt inputString =
     (let S = dropWhile isWhiteSpace inputString;
          sign = (if take 1 S = ''-'' then - 1 else (1::int));
          S1 = (if take 1 S = ''+'' \<or> take 1 S = ''-'' then drop 1 S else S);
          hex = (take 2 S1 = ''0x'' \<or> take 2 S1 = ''0X'');
          R = (if hex then 16 else 10);
          S2 = (if hex then drop 2 S1 else S1);
          Z = takeWhile (isRadixDigit R) S2
      in if Z = [] then NaN else round_to_double (sign = - 1) (digitsValue R Z) 1)"

text \<open>
  The component: the \<open>value\<close> prop (the committed pattern), the two \<open>useState\<close> cells, and
  the log of the calls made to the \<open>onChange\<close> prop. \<open>getPreviewOpacity\<close> is imported from
  a module outside this development and is a parameter, as is the localized postfix.
\<close>

record 'v opacity_preview =
  valueProp :: 'v
  inputValue :: string
  hasPostfix :: bool
  onChangeCalls :: "number list"

definition enablePostfix :: "'v opacity_preview \<Rightarrow> 'v opacity_preview" where
  "enablePostfix c = c\<lparr>hasPostfix := True\<rparr>"

definition disablePostfix :: "'v opacity_preview \<Rightarrow> 'v opacity_preview" where
  "disablePostfix c = c\<lparr>hasPostfix := False\<rparr>"

definition handleChange :: "string \<Rightarrow> 'v opacity_preview \<Rightarrow> 'v opacity_preview" where
  "handleChange targetValue c =
     (let c1 = c\<lparr>inputValue := targetValue\<rparr>;
          val = divide_number (parseInt targetValue) (Finite False 100)
      in if \<not> isNaN val then c1\<lparr>onChangeCalls := onChangeCalls c1 @ [val]\<rparr> else c1)"

definition updateFromValue :: "('v \<Rightarrow> string) \<Rightarrow> 'v opacity_preview \<Rightarrow> 'v opacity_preview" where
  "updateFromValue getPreviewOpacity c = c\<lparr>inputValue := getPreviewOpacity (valueProp c)\<rparr>"

definition handleBlur :: "('v \<Rightarrow> string) \<Rightarrow> 'v opacity_preview \<Rightarrow> 'v opacity_preview" where
  "handleBlur getPreviewOpacity c = updateFromValue getPreviewOpacity (enablePostfix c)"

text \<open>The \<open>value\<close> attribute of the rendered input.\<close>

definition displayed :: "string \<Rightarrow> 'v opacity_preview \<Rightarrow> string" where
  "displayed postfix c = (if hasPostfix c then inputValue c @ postfix else inputValue c)"

text \<open>
  Mounting runs the effect once; a later render with another \<open>value\<close> prop runs it again.
\<close>

definition mount_opacity :: "('v \<Rightarrow> string) \<Rightarrow> 'v \<Rightarrow> 'v opacity_preview" where
  "mount_opacity getPreviewOpacity v =
     updateFromValue getPreviewOpacity
       \<lparr>valueProp = v, inputValue = '''', hasPostfix = True, onChangeCalls = []\<rparr>"

definition valueChanged :: "('v \<Rightarrow> string) \<Rightarrow> 'v \<Rightarrow> 'v opacity_preview \<Rightarrow> 'v opacity_preview" where
  "valueChanged getPreviewOpacity v c = updateFromValue getPreviewOpacity (c\<lparr>valueProp := v\<rparr>)"

datatype 'v field_event = Focus | Change string | Blur | NewValue 'v

fun field_step :: "('v \<Rightarrow> string) \<Rightarrow> 'v field_event \<Rightarrow> 'v opacity_preview \<Rightarrow> 'v opacity_preview" where
  "field_step gp Focus c = disablePostfix c"
| "field_step gp (Change s) c = handleChange s c"
| "field_step gp Blur c = handleBlur gp c"
| "field_step gp (NewValue v) c = valueChanged gp v c"

definition field_run :: "('v \<Rightarrow> string) \<Rightarrow> 'v field_event list \<Rightarrow> 'v opacity_preview \<Rightarrow> 'v opacity_preview" where
  "field_run gp es c = fold (field_step gp) es c"

text \<open>The \<open>value\<close> prop the parent has handed down last, after a list of events.\<close>

fun committedValue :: "'v field_event list \<Rightarrow> 'v \<Rightarrow> 'v" where
  "committedValue [] v = v"
| "committedValue (NewValue v' # es) v = committedValue es v'"
| "committedValue (_ # es) v = committedValue es v"

section \<open>Inspector provider (\<open>InspectorProvider\<close>)\<close>

datatype tab = DESIGN | DOCUMENT | PREPUBLISH

text \<open>The values a \<open>show_in_list\<close> property can hold, and JavaScript's truthiness.\<close>

datatype jsval = JUndefined | JNull | JBool bool | JNumber number | JString string | JObject

fun truthy :: "jsval \<Rightarrow> bool" where
  "truthy JUndefined = False"
| "truthy JNull = False"
| "truthy (JBool b) = b"
| "truthy (JNumber NaN) = False"
| "truthy (JNumber (Infinity s)) = True"
| "truthy (JNumber (Finite s r)) = (r \<noteq> 0)"
| "truthy (JString s) = (s \<noteq> [])"
| "truthy JObject = True"

record status_record =
  slug :: string
  status_name :: string
  show_in_list :: jsval

record user_record =
  user_id :: int
  user_name :: string

record 'a item =
  item_value :: 'a
  item_name :: string

text \<open>
  The response of \<open>getAllStatuses\<close> is an object; it is given by its own enumerable
  properties in enumeration order, which is the order of \<open>Object.values\<close>.
\<close>

definition Object_values :: "(string \<times> 'a) list \<Rightarrow> 'a list" where
  "Object_values data = map snd data"

text \<open>The \<open>useState\<close> cells of the provider.\<close>

record cells =
  tab :: tab
  users :: "int item list"
  statuses :: "string item list"
  inspectorContentHeight :: "real option"
  isUsersLoading :: bool
  isStatusesLoading :: bool

text \<open>
  The provider with its surroundings: the current cells (queued updates applied), the cells
  as the latest render read them (what the callbacks and effects of that render close over),
  the \<open>tabRef\<close> ref, the story state of the latest render, and how often each fetch
  capability has been invoked.
\<close>

record inspector =
  current :: cells
  rendered :: cells
  tabRef :: tab
  selectedElementIds :: "string list"
  currentPage :: nat
  statusFetches :: nat
  userFetches :: nat

definition setTab :: "tab \<Rightarrow> inspector \<Rightarrow> inspector" where
  "setTab t w = w\<lparr>current := (current w)\<lparr>tab := t\<rparr>\<rparr>"

definition setUsers :: "int item list \<Rightarrow> inspector \<Rightarrow> inspector" where
  "setUsers us w = w\<lparr>current := (current w)\<lparr>users := us\<rparr>\<rparr>"

definition setStatuses :: "string item list \<Rightarrow> inspector \<Rightarrow> inspector" where
  "setStatuses ss w = w\<lparr>current := (current w)\<lparr>statuses := ss\<rparr>\<rparr>"

definition setInspectorContentHeight :: "real \<Rightarrow> inspector \<Rightarrow> inspector" where
  "setInspectorContentHeight h w = w\<lparr>current := (current w)\<lparr>inspectorContentHeight := Some h\<rparr>\<rparr>"

definition setIsUsersLoading :: "bool \<Rightarrow> inspector \<Rightarrow> inspector" where
  "setIsUsersLoading b w = w\<lparr>current := (current w)\<lparr>isUsersLoading := b\<rparr>\<rparr>"

definition setIsStatusesLoading :: "bool \<Rightarrow> inspector \<Rightarrow> inspector" where
  "setIsStatusesLoading b w = w\<lparr>current := (current w)\<lparr>isStatusesLoading := b\<rparr>\<rparr>"

text \<open>The three effects, in the order the component declares them.\<close>

definition tabEffect :: "inspector \<Rightarrow> inspector" where
  "tabEffect w = w\<lparr>tabRef := tab (rendered w)\<rparr>"

definition selectionEffect :: "inspector \<Rightarrow> inspector" where
  "selectionEffect w =
     (if length (selectedElementIds w) > 0 \<and> tabRef w = DOCUMENT then setTab DESIGN w else w)"

definition pageEffect :: "inspector \<Rightarrow> inspector" where
  "pageEffect w = (if tabRef w = DOCUMENT then setTab DESIGN w else w)"

text \<open>
  One render and the effects it runs. \<open>newSel\<close> is \<open>Some ids\<close> when \<open>useStory\<close> hands out a
  new \<open>selectedElementIds\<close> array (dependencies are compared by reference), \<open>newPage\<close>
  likewise for \<open>currentPage\<close>. An effect runs when its dependency differs from the one
  of the render before.
\<close>

definition commit :: "string list option \<Rightarrow> nat option \<Rightarrow> inspector \<Rightarrow> inspector" where
  "commit newSel newPage w =
     (let tabChanged = (tab (current w) \<noteq> tab (rendered w));
          w1 = w\<lparr>rendered := current w,
                 selectedElementIds := (case newSel of None \<Rightarrow> selectedElementIds w | Some ids \<Rightarrow> ids),
                 currentPage := (case newPage of None \<Rightarrow> currentPage w | Some p \<Rightarrow> p)\<rparr>;
          w2 = (if tabChanged then tabEffect w1 else w1);
          w3 = (if newSel \<noteq> None then selectionEffect w2 else w2)
      in if newPage \<noteq> None then pageEffect w3 else w3)"

text \<open>A state update made by an effect schedules one more render of the same props.\<close>

definition render :: "string list option \<Rightarrow> nat option \<Rightarrow> inspector \<Rightarrow> inspector" where
  "render newSel newPage w =
     (let w1 = commit newSel newPage w
      in if current w1 \<noteq> rendered w1 then commit None None w1 else w1)"

definition mount :: "string list \<Rightarrow> nat \<Rightarrow> inspector" where
  "mount ids page =
     (let c = \<lparr>tab = DESIGN, users = [], statuses = [], inspectorContentHeight = None,
               isUsersLoading = False, isStatusesLoading = False\<rparr>
      in pageEffect (selectionEffect (tabEffect
           \<lparr>current = c, rendered = c, tabRef = DESIGN, selectedElementIds = ids,
            currentPage = page, statusFetches = 0, userFetches = 0\<rparr>)))"

text \<open>
  \<open>loadStatuses\<close> and \<open>loadUsers\<close> are callbacks of a render: the guard reads the cells that
  render saw (first argument), the updates go to the current cells. Invoking the fetch
  capability is counted.
\<close>

definition loadStatuses :: "cells \<Rightarrow> inspector \<Rightarrow> inspector" where
  "loadStatuses seen w =
     (if \<not> isStatusesLoading seen \<and> length (statuses seen) = 0
      then (setIsStatusesLoading True w)\<lparr>statusFetches := Suc (statusFetches w)\<rparr>
      else w)"

definition loadUsers :: "cells \<Rightarrow> inspector \<Rightarrow> inspector" where
  "loadUsers seen w =
     (if \<not> isUsersLoading seen \<and> length (users seen) = 0
      then (setIsUsersLoading True w)\<lparr>userFetches := Suc (userFetches w)\<rparr>
      else w)"

text \<open>The promise of a fetch settles: \<open>then\<close> runs on fulfilment only, \<open>finally\<close> always.\<close>

definition statusesFulfilled :: "(string \<times> status_record) list \<Rightarrow> inspector \<Rightarrow> inspector" where
  "statusesFulfilled data w =
     (let data1 = Object_values data;
          data2 = filter (\<lambda>r. truthy (show_in_list r)) data1;
          saveData = map (\<lambda>r. \<lparr>item_value = slug r, item_name = status_name r\<rparr>) data2
      in setIsStatusesLoading False (setStatuses saveData w))"

definition statusesRejected :: "inspector \<Rightarrow> inspector" where
  "statusesRejected w = setIsStatusesLoading False w"

definition usersFulfilled :: "user_record list \<Rightarrow> inspector \<Rightarrow> inspector" where
  "usersFulfilled data w =
     (let saveData = map (\<lambda>r. \<lparr>item_value = user_id r, item_name = user_name r\<rparr>) data
      in setIsUsersLoading False (setUsers saveData w))"

definition usersRejected :: "inspector \<Rightarrow> inspector" where
  "usersRejected w = setIsUsersLoading False w"

text \<open>The actions the context of the latest render hands to its consumers.\<close>

definition currentLoadStatuses :: "inspector \<Rightarrow> inspector" where
  "currentLoadStatuses w = loadStatuses (rendered w) w"

definition currentLoadUsers :: "inspector \<Rightarrow> inspector" where
  "currentLoadUsers w = loadUsers (rendered w) w"

text \<open>
  What can happen while a fetch is pending: the latest render's \<open>loadStatuses\<close> or
  \<open>loadUsers\<close> is invoked, or the provider renders again.
\<close>

datatype pending_event = CallLoadStatuses | CallLoadUsers | Rerender "string list option" "nat option"

fun pending_step :: "pending_event \<Rightarrow> inspector \<Rightarrow> inspector" where
  "pending_step CallLoadStatuses w = currentLoadStatuses w"
| "pending_step CallLoadUsers w = currentLoadUsers w"
| "pending_step (Rerender newSel newPage) w = render newSel newPage w"

definition pending_run :: "pending_event list \<Rightarrow> inspector \<Rightarrow> inspector" where
  "pending_run es w = fold pending_step es w"

text \<open>The worlds a mounted provider can be in.\<close>

inductive reachable :: "inspector \<Rightarrow> bool" where
  r_mount: "reachable (mount ids page)"
| r_setTab: "reachable w \<Longrightarrow> reachable (setTab t w)"
| r_render: "reachable w \<Longrightarrow> reachable (render newSel newPage w)"
| r_resize: "reachable w \<Longrightarrow> reachable (setInspectorContentHeight h w)"
| r_loadStatuses: "reachable w \<Longrightarrow> reachable (currentLoadStatuses w)"
| r_loadUsers: "reachable w \<Longrightarrow> reachable (currentLoadUsers w)"
| r_statusesFulfilled: "reachable w \<Longrightarrow> reachable (statusesFulfilled sdata w)"
| r_statusesRejected: "reachable w \<Longrightarrow> reachable (statusesRejected w)"
| r_usersFulfilled: "reachable w \<Longrightarrow> reachable (usersFulfilled udata w)"
| r_usersRejected: "reachable w \<Longrightarrow> reachable (usersRejected w)"

text \<open>
  Two concrete worlds: a provider just mounted on a story with nothing selected, and one
  whose user has selected element \<open>a\<close> and then opened the document tab.
\<close>

definition fresh_inspector :: inspector where
  "fresh_inspector = mount [] 0"

definition document_tab_on_selection :: inspector where
  "document_tab_on_selection =
     render None None (setTab DOCUMENT (render (Some [''a'']) None (mount [] 0)))"

section \<open>Analytics tag (\<open>Analytics\<close>)\<close>

text \<open>
  PHP values without floats and objects. An array is the ordered list of its entries; its
  keys are integers or strings, a string that is a decimal integer in canonical form being
  stored as that integer. Where PHP 8 throws, the model returns the error.
\<close>

datatype key = IKey int | SKey string

datatype php = PNull | PBool bool | PInt int | PStr string | PArr "(key \<times> php) list"

datatype php_error = TypeError

definition is_decimal_integer :: "string \<Rightarrow> bool" where
  "is_decimal_integer s =
     (let neg = (take 1 s = ''-'');
          ds = (if neg then drop 1 s else s);
          v = digitsValue 10 ds
      in ds \<noteq> [] \<and> list_all (isRadixDigit 10) ds
         \<and> (if take 1 ds = ''0'' then ds = ''0'' \<and> \<not> neg else True)
         \<and> (if neg then v \<le> 9223372036854775808 else v \<le> 9223372036854775807))"

definition key_of_string :: "string \<Rightarrow> key" where
  "key_of_string s =
     (if is_decimal_integer s
      then IKey (if take 1 s = ''-'' then - digitsValue 10 (drop 1 s) else digitsValue 10 s)
      else SKey s)"

text \<open>The key an array literal stores a value under.\<close>

fun key_of :: "php \<Rightarrow> php_error + key" where
  "key_of PNull = Inr (SKey [])"
| "key_of (PBool b) = Inr (IKey (if b then 1 else 0))"
| "key_of (PInt i) = Inr (IKey i)"
| "key_of (PStr s) = Inr (key_of_string s)"
| "key_of (PArr _) = Inl TypeError"

definition array_get :: "(key \<times> php) list \<Rightarrow> key \<Rightarrow> php" where
  "array_get a k = (case map_of a k of None \<Rightarrow> PNull | Some v \<Rightarrow> v)"

definition isset_key :: "(key \<times> php) list \<Rightarrow> key \<Rightarrow> bool" where
  "isset_key a k = (case map_of a k of None \<Rightarrow> False | Some v \<Rightarrow> v \<noteq> PNull)"

text \<open>\<open>$a[k] = v\<close>: an entry of that key is replaced where it stands, a new one goes last.\<close>

fun array_set :: "(key \<times> php) list \<Rightarrow> key \<Rightarrow> php \<Rightarrow> (key \<times> php) list" where
  "array_set [] k v = [(k, v)]"
| "array_set ((k', v') # a) k v = (if k' = k then (k, v) # a else (k', v') # array_set a k v)"

text \<open>
  Reading \<open>$x['name']\<close> for a name that is not numeric: an entry of an array, null on
  null, booleans and integers and on a missing entry, an error on a string.
\<close>

fun offset_get :: "php \<Rightarrow> string \<Rightarrow> php_error + php" where
  "offset_get (PArr a) name = Inr (array_get a (key_of_string name))"
| "offset_get (PStr _) name = Inl TypeError"
| "offset_get _ name = Inr PNull"

fun array_cast :: "php \<Rightarrow> (key \<times> php) list" where
  "array_cast (PArr a) = a"
| "array_cast PNull = []"
| "array_cast v = [(IKey 0, v)]"

text \<open>
  \<open>array_merge\<close>: entries with integer keys are appended and numbered anew from zero, an
  entry with a string key replaces the value of an earlier entry of that key.
\<close>

fun merge_step :: "key \<times> php \<Rightarrow> (key \<times> php) list \<times> int \<Rightarrow> (key \<times> php) list \<times> int" where
  "merge_step (IKey _, v) (acc, n) = (acc @ [(IKey n, v)], n + 1)"
| "merge_step (SKey s, v) (acc, n) = (array_set acc (SKey s) v, n)"

fun array_merge :: "php \<Rightarrow> php \<Rightarrow> php_error + (key \<times> php) list" where
  "array_merge (PArr a) (PArr b) = Inr (fst (fold merge_step (a @ b) ([], 0)))"
| "array_merge _ _ = Inl TypeError"

function digits_of_nat :: "nat \<Rightarrow> string" where
  "digits_of_nat n =
     (if n < 10 then [char_of (48 + n)] else digits_of_nat (n div 10) @ [char_of (48 + n mod 10)])"
  by pat_completeness auto
termination
  by (relation "measure (\<lambda>n. n)") auto

fun string_cast :: "php \<Rightarrow> string" where
  "string_cast PNull = []"
| "string_cast (PBool b) = (if b then ''1'' else [])"
| "string_cast (PInt i) = (if i < 0 then ''-'' @ digits_of_nat (nat (- i)) else digits_of_nat (nat i))"
| "string_cast (PStr s) = s"
| "string_cast (PArr _) = ''Array''"

definition string_is_truthy :: "string \<Rightarrow> bool" where
  "string_is_truthy s \<longleftrightarrow> s \<noteq> [] \<and> s \<noteq> ''0''"

text \<open>
  What the class reads from WordPress: whether \<open>GOOGLESITEKIT_VERSION\<close> is defined, and
  the options table (\<open>get_option\<close> gives \<open>false\<close> for an option that is not there).
\<close>

record wp_env =
  site_kit_defined :: bool
  options :: "(string \<times> php) list"

definition get_option :: "wp_env \<Rightarrow> string \<Rightarrow> php" where
  "get_option env name = (case map_of (options env) name of None \<Rightarrow> PBool False | Some v \<Rightarrow> v)"

definition get_site_kit_active_modules_option :: "wp_env \<Rightarrow> (key \<times> php) list" where
  "get_site_kit_active_modules_option env =
     (if \<not> site_kit_defined env then []
      else case get_option env ''googlesitekit_active_modules'' of
             PArr option \<Rightarrow> option
           | _ \<Rightarrow> (case get_option env ''googlesitekit-active-modules'' of
                    PArr legacy_option \<Rightarrow> legacy_option
                  | _ \<Rightarrow> []))"

definition is_site_kit_analytics_module_active :: "wp_env \<Rightarrow> bool" where
  "is_site_kit_analytics_module_active env \<longleftrightarrow>
     PStr ''analytics'' \<in> set (map snd (get_site_kit_active_modules_option env))"

text \<open>
  \<open>Settings::SETTING_NAME_TRACKING_ID\<close> is declared in another class and is the
  parameter \<open>setting_name\<close>.
\<close>

definition get_tracking_id :: "string \<Rightarrow> wp_env \<Rightarrow> string" where
  "get_tracking_id setting_name env = string_cast (get_option env setting_name)"

text \<open>
  \<open>apply_filters('web_stories_analytics_configuration', _)\<close> is the parameter \<open>flt\<close>: the
  callbacks registered on the hook, composed; \<open>id\<close> when there is none.
\<close>

definition get_default_configuration :: "(php \<Rightarrow> php) \<Rightarrow> php \<Rightarrow> php_error + (key \<times> php) list" where
  "get_default_configuration flt tracking_id =
     (case key_of tracking_id of
        Inl e \<Rightarrow> Inl e
      | Inr tracking_key \<Rightarrow> Inr (array_cast (flt (PArr
     [(SKey ''vars'', PArr
        [(SKey ''gtag_id'', tracking_id),
         (SKey ''config'', PArr [(tracking_key, PArr [(SKey ''groups'', PStr ''default'')])])]),
      (SKey ''triggers'', PArr
        [
         (SKey ''storyProgress'', PArr
           [(SKey ''on'', PStr ''story-page-visible''),
            (SKey ''request'', PStr ''event''),
            (SKey ''vars'', PArr
              [(SKey ''event_name'', PStr ''custom''),
               (SKey ''event_action'', PStr ''story_progress''),
               (SKey ''event_category'', PStr ''${title}''),
               (SKey ''event_label'', PStr ''${storyPageIndex}''),
               (SKey ''event_value'', PStr ''${storyProgress}''),
               (SKey ''send_to'', tracking_id)])]),
         (SKey ''storyEnd'', PArr
           [(SKey ''on'', PStr ''story-last-page-visible''),
            (SKey ''request'', PStr ''event''),
            (SKey ''vars'', PArr
              [(SKey ''event_name'', PStr ''custom''),
               (SKey ''event_action'', PStr ''story_complete''),
               (SKey ''event_category'', PStr ''${title}''),
               (SKey ''event_label'', PStr ''${storyPageCount}''),
               (SKey ''send_to'', tracking_id)])]),
         (SKey ''trackFocusState'', PArr
           [(SKey ''on'', PStr ''story-focus''),
            (SKey ''tagName'', PStr ''a''),
            (SKey ''request'', PStr ''click ''),
            (SKey ''vars'', PArr
              [(SKey ''event_name'', PStr ''custom''),
               (SKey ''event_action'', PStr ''story_focus''),
               (SKey ''event_category'', PStr ''${title}''),
               (SKey ''send_to'', tracking_id)])]),
         (SKey ''trackClickThrough'', PArr
           [(SKey ''on'', PStr ''story-click-through''),
            (SKey ''tagName'', PStr ''a''),
            (SKey ''request'', PStr ''click ''),
            (SKey ''vars'', PArr
              [(SKey ''event_name'', PStr ''custom''),
               (SKey ''event_action'', PStr ''story_click_through''),
               (SKey ''event_category'', PStr ''${title}''),
               (SKey ''send_to'', tracking_id)])]),
         (SKey ''storyOpen'', PArr
           [(SKey ''on'', PStr ''story-open''),
            (SKey ''request'', PStr ''event''),
            (SKey ''vars'', PArr
              [(SKey ''event_name'', PStr ''custom''),
               (SKey ''event_action'', PStr ''story_open''),
               (SKey ''event_category'', PStr ''${title}''),
               (SKey ''send_to'', tracking_id)])]),
         (SKey ''storyClose'', PArr
           [(SKey ''on'', PStr ''story-close''),
            (SKey ''request'', PStr ''event''),
            (SKey ''vars'', PArr
              [(SKey ''event_name'', PStr ''custom''),
               (SKey ''event_action'', PStr ''story_close''),
               (SKey ''event_category'', PStr ''${title}''),
               (SKey ''send_to'', tracking_id)])]),
         (SKey ''audioMuted'', PArr
           [(SKey ''on'', PStr ''story-audio-muted''),
            (SKey ''request'', PStr ''event''),
            (SKey ''vars'', PArr
              [(SKey ''event_name'', PStr ''custom''),
               (SKey ''event_action'', PStr ''story_audio_muted''),
               (SKey ''event_category'', PStr ''${title}''),
               (SKey ''send_to'', tracking_id)])]),
         (SKey ''audioUnmuted'', PArr
           [(SKey ''on'', PStr ''story-audio-unmuted''),
            (SKey ''request'', PStr ''event''),
            (SKey ''vars'', PArr
              [(SKey ''event_name'', PStr ''custom''),
               (SKey ''event_action'', PStr ''story_audio_unmuted''),
               (SKey ''event_category'', PStr ''${title}''),
               (SKey ''send_to'', tracking_id)])]),
         (SKey ''pageAttachmentEnter'', PArr
           [(SKey ''on'', PStr ''story-page-attachment-enter''),
            (SKey ''request'', PStr ''event''),
            (SKey ''vars'', PArr
              [(SKey ''event_name'', PStr ''custom''),
               (SKey ''event_action'', PStr ''story_page_attachment_enter''),
               (SKey ''event_category'', PStr ''${title}''),
               (SKey ''send_to'', tracking_id)])]),
         (SKey ''pageAttachmentExit'', PArr
           [(SKey ''on'', PStr ''story-page-attachment-exit''),
            (SKey ''request'', PStr ''event''),
            (SKey ''vars'', PArr
              [(SKey ''event_name'', PStr ''custom''),
               (SKey ''event_action'', PStr ''story_page_attachment_exit''),
               (SKey ''event_category'', PStr ''${title}''),
               (SKey ''send_to'', tracking_id)])])
        ])]))))"

text \<open>
  The action prints nothing (\<open>None\<close>) or the \<open>amp-analytics\<close> element whose script holds
  the JSON encoding of the configuration (\<open>Some\<close> of it).
\<close>

definition print_analytics_tag :: "(php \<Rightarrow> php) \<Rightarrow> string \<Rightarrow> wp_env \<Rightarrow> php_error + (key \<times> php) list option" where
  "print_analytics_tag flt setting_name env =
     (if is_site_kit_analytics_module_active env then Inr None
      else let tracking_id = get_tracking_id setting_name env
           in if \<not> string_is_truthy tracking_id then Inr None
              else case get_default_configuration flt (PStr tracking_id) of
                     Inl e \<Rightarrow> Inl e
                   | Inr config \<Rightarrow> Inr (Some config))"

text \<open>
  \<open>is_singular\<close> is the result of \<open>is_singular( Story_Post_Type::POST_TYPE_SLUG )\<close> for
  the request.
\<close>

definition filter_site_kit_gtag_opt :: "(php \<Rightarrow> php) \<Rightarrow> bool \<Rightarrow> (key \<times> php) list \<Rightarrow> php_error + (key \<times> php) list" where
  "filter_site_kit_gtag_opt flt is_singular gtag_opt =
     (if \<not> is_singular then Inr gtag_opt
      else case offset_get (PArr gtag_opt) ''vars'' of
        Inl e \<Rightarrow> Inl e
      | Inr vars \<Rightarrow> (case offset_get vars ''gtag_id'' of
        Inl e \<Rightarrow> Inl e
      | Inr gtag_id \<Rightarrow> (case get_default_configuration flt gtag_id of
        Inl e \<Rightarrow> Inl e
      | Inr default_config \<Rightarrow>
          (let default_config1 = array_set default_config (SKey ''triggers'')
                 (if isset_key default_config (SKey ''triggers'')
                  then array_get default_config (SKey ''triggers'') else PArr []);
               gtag_opt1 = array_set gtag_opt (SKey ''triggers'')
                 (if isset_key gtag_opt (SKey ''triggers'')
                  then array_get gtag_opt (SKey ''triggers'') else PArr [])
           in case array_merge (array_get default_config1 (SKey ''triggers''))
                               (array_get gtag_opt1 (SKey ''triggers'')) of
                Inl e \<Rightarrow> Inl e
              | Inr merged \<Rightarrow> Inr (array_set gtag_opt1 (SKey ''triggers'') (PArr merged))))))"

text \<open>Reading the emitted configuration: its trigger names and its \<open>vars.gtag_id\<close>.\<close>

definition trigger_keys :: "(key \<times> php) list \<Rightarrow> key list" where
  "trigger_keys config = map fst (array_cast (array_get config (SKey ''triggers'')))"

definition vars_gtag_id :: "(key \<times> php) list \<Rightarrow> php" where
  "vars_gtag_id config = array_get (array_cast (array_get config (SKey ''vars''))) (SKey ''gtag_id'')"

definition printed_trigger_keys :: "php_error + (key \<times> php) list option \<Rightarrow> key list" where
  "printed_trigger_keys out = (case out of Inr (Some config) \<Rightarrow> trigger_keys config | _ \<Rightarrow> [])"

definition printed_gtag_id :: "php_error + (key \<times> php) list option \<Rightarrow> php" where
  "printed_gtag_id out = (case out of Inr (Some config) \<Rightarrow> vars_gtag_id config | _ \<Rightarrow> PNull)"

text \<open>
  Two concrete inputs: a site whose tracking ID setting holds \<open>UA-123\<close> and that has no
  Site Kit, and a Site Kit configuration with a trigger of its own under the name
  \<open>storyEnd\<close>, a numbered trigger and a further key.
\<close>

definition ua123_env :: wp_env where
  "ua123_env = \<lparr>site_kit_defined = False,
                 options = [(''web_stories_ga_tracking_id'', PStr ''UA-123'')]\<rparr>"

definition site_kit_opt :: "(key \<times> php) list" where
  "site_kit_opt =
     [(SKey ''vars'', PArr [(SKey ''gtag_id'', PStr ''UA-9'')]),
      (SKey ''triggers'', PArr [(SKey ''storyEnd'', PStr ''external''), (IKey 5, PInt 3)]),
      (SKey ''optoutElementId'', PStr ''__gaOptOutExtension'')]"

section \<open>The opacity preview field: what a change and a blur do\<close>

lemma bit_length_eval:
  "n \<le> 0 \<Longrightarrow> bit_length n = 0"
  "0 < n \<Longrightarrow> bit_length n = 1 + bit_length (n div 2)"
  by (subst bit_length.simps, simp)+

lemmas parse_defs = parseInt_def isWhiteSpace_def isRadixDigit_def digitValue_def digitsValue_def
  round_to_double_def round_half_even_def pow2_def bit_length_eval Let_def

lemma round_to_double_not_NaN: "round_to_double sg p q \<noteq> NaN"
  by (simp add: round_to_double_def Let_def)

lemma divide_integer_not_NaN:
  assumes "isInteger n"
  shows "\<not> isNaN (divide_number n (Finite False 100))"
proof (cases n)
  case (Finite sg x)
  obtain a b where q: "quotient_of x = (a, b)"
    by (cases "quotient_of x")
  have "round_to_double (sg \<noteq> False) (a * 1) (b * 100) \<noteq> NaN"
    by (rule round_to_double_not_NaN)
  with Finite q show ?thesis
    by (cases "round_to_double (sg \<noteq> False) (a * 1) (b * 100)") simp_all
qed (use assms in simp_all)

text \<open>
  Rounding at work: \<open>50 / 100\<close> is exact and \<open>7 / 100\<close> is not; above \<open>2^53\<close> not every
  integer is a double; \<open>-0\<close> reads as minus zero; a string of 310 digits reads as infinity.
\<close>

lemma parseInt_examples:
  "parseInt ''50'' = Finite False 50"
  "divide_number (Finite False 50) (Finite False 100) = Finite False (1 / 2)"
  "divide_number (parseInt ''7'') (Finite False 100)
     = Finite False (1261007895663739 / 18014398509481984)"
  "parseInt ''9007199254740993'' = Finite False 9007199254740992"
  "divide_number (parseInt ''9007199254740993'') (Finite False 100)
     = Finite False (5764607523034235 / 64)"
  "parseInt ''-0'' = Finite True 0"
  "divide_number (parseInt ''-0'') (Finite False 100) = Finite True 0"
  by (simp_all add: parse_defs)

lemma parseInt_overflow:
  "parseInt ''1000000000000000000000000000000000000000000000000000000000000000000000000000000000000000000000000000000000000000000000000000000000000000000000000000000000000000000000000000000000000000000000000000000000000000000000000000000000000000000000000000000000000000000000000000000000000000000000000000000000000000000000'' = Infinity False"
  by (simp add: parse_defs)

text \<open>
  Claim C5. For every string \<open>s\<close> for which \<open>parseInt s\<close> is an integer \<open>n\<close> with \<open>0 \<le> n\<close>,
  the change handler run on \<open>s\<close> invokes \<open>onChange\<close> once, with the number \<open>n / 100\<close> (the
  quotient as a double), within that same handler run (and the buffer holds \<open>s\<close>).
\<close>

theorem opacity_change_calls_onChange:
  assumes "parseInt s = n" and "isInteger n" and "nonNegative n"
  shows "onChangeCalls (handleChange s c) = onChangeCalls c @ [divide_number n (Finite False 100)]
         \<and> inputValue (handleChange s c) = s"
  using assms(1) divide_integer_not_NaN [OF assms(2)]
  by (simp add: handleChange_def Let_def)

theorem opacity_change_calls_onChange_witness:
  "parseInt ''50'' = Finite False 50 \<and> isInteger (Finite False 50) \<and> nonNegative (Finite False 50)
   \<and> onChangeCalls (handleChange ''50'' (mount_opacity (\<lambda>u. ''100'') ())) = [Finite False (1 / 2)]"
proof -
  have i: "isInteger (Finite False 50)" by simp
  have z: "nonNegative (Finite False 50)" by simp
  from opacity_change_calls_onChange [OF parseInt_examples(1) i z,
      of "mount_opacity (\<lambda>u. ''100'') ()"] parseInt_examples(1,2) i z
  show ?thesis by (simp add: mount_opacity_def updateFromValue_def)
qed

text \<open>
  Claim C6. For every string whose \<open>parseInt\<close> is NaN, the change handler makes no call
  to \<open>onChange\<close>, and while the postfix is enabled the input shows the typed string followed
  by the localized postfix.
\<close>

theorem opacity_change_nan_is_silent:
  assumes "parseInt s = NaN"
  shows "onChangeCalls (handleChange s c) = onChangeCalls c
         \<and> (hasPostfix c \<longrightarrow> displayed postfix (handleChange s c) = s @ postfix)"
  using assms by (simp add: handleChange_def Let_def displayed_def)

theorem opacity_change_nan_is_silent_witness:
  "parseInt ''abc'' = NaN
   \<and> onChangeCalls (handleChange ''abc'' (mount_opacity (\<lambda>u. ''100'') ())) = []
   \<and> displayed ''%'' (handleChange ''abc'' (mount_opacity (\<lambda>u. ''100'') ())) = ''abc%''"
proof -
  have h: "parseInt ''abc'' = NaN"
    by (simp add: parse_defs)
  from opacity_change_nan_is_silent [OF h, of "mount_opacity (\<lambda>u. ''100'') ()" "''%''"] h
  show ?thesis by (simp add: mount_opacity_def updateFromValue_def)
qed

lemma field_step_valueProp:
  "valueProp (field_step gp e c) = committedValue [e] (valueProp c)"
  by (cases e) (simp_all add: disablePostfix_def handleChange_def Let_def handleBlur_def
      updateFromValue_def enablePostfix_def valueChanged_def)

lemma committedValue_Cons: "committedValue (e # es) v = committedValue es (committedValue [e] v)"
  by (cases e) simp_all

lemma field_run_valueProp:
  "valueProp (field_run gp es c) = committedValue es (valueProp c)"
proof (induction es arbitrary: c)
  case Nil
  show ?case by (simp add: field_run_def)
next
  case (Cons e es)
  have "valueProp (field_run gp (e # es) c) = valueProp (field_run gp es (field_step gp e c))"
    by (simp add: field_run_def)
  also have "\<dots> = committedValue es (valueProp (field_step gp e c))"
    by (rule Cons.IH)
  also have "\<dots> = committedValue (e # es) (valueProp c)"
    by (simp add: field_step_valueProp committedValue_Cons [of e es])
  finally show ?case .
qed

text \<open>
  Claim C7. After any events (focus, edits that parse or not, blurs, new \<open>value\<close> props), a
  blur leaves the postfix enabled and the buffer equal to \<open>getPreviewOpacity\<close> of the
  \<open>value\<close> prop handed down last.
\<close>

theorem opacity_blur_restores_committed:
  "hasPostfix (field_run gp (es @ [Blur]) c)
   \<and> inputValue (field_run gp (es @ [Blur]) c) = gp (committedValue es (valueProp c))"
proof -
  have "field_run gp (es @ [Blur]) c = handleBlur gp (field_run gp es c)"
    by (simp add: field_run_def)
  then show ?thesis
    by (simp add: handleBlur_def updateFromValue_def enablePostfix_def field_run_valueProp)
qed

theorem opacity_blur_restores_committed_witness:
  "displayed ''%'' (field_run (\<lambda>v. if v then ''100'' else ''40'')
       [NewValue False, Focus, Change ''7'', Change ''7x'', Change ''x'', Blur]
       (mount_opacity (\<lambda>v. if v then ''100'' else ''40'') True)) = ''40%''"
  using opacity_blur_restores_committed [of "\<lambda>v. if v then ''100'' else ''40''"
      "[NewValue False, Focus, Change ''7'', Change ''7x'', Change ''x'']"
      "mount_opacity (\<lambda>v. if v then ''100'' else ''40'') True"]
  by (simp add: displayed_def mount_opacity_def updateFromValue_def)

section \<open>The inspector provider: tab reset and lazy loading\<close>

lemmas effect_defs = commit_def tabEffect_def selectionEffect_def pageEffect_def setTab_def

lemma commit_frame:
  "users (current (commit a b w)) = users (current w)"
  "statuses (current (commit a b w)) = statuses (current w)"
  "isUsersLoading (current (commit a b w)) = isUsersLoading (current w)"
  "isStatusesLoading (current (commit a b w)) = isStatusesLoading (current w)"
  "rendered (commit a b w) = current w"
  "statusFetches (commit a b w) = statusFetches w"
  "userFetches (commit a b w) = userFetches w"
  by (simp_all add: effect_defs Let_def)

lemma render_frame:
  "users (current (render a b w)) = users (current w)"
  "statuses (current (render a b w)) = statuses (current w)"
  "isUsersLoading (current (render a b w)) = isUsersLoading (current w)"
  "isStatusesLoading (current (render a b w)) = isStatusesLoading (current w)"
  "statusFetches (render a b w) = statusFetches w"
  "userFetches (render a b w) = userFetches w"
  by (simp_all add: render_def Let_def commit_frame)

lemma render_rendered:
  "users (rendered (render a b w)) = users (current w)"
  "statuses (rendered (render a b w)) = statuses (current w)"
  "isUsersLoading (rendered (render a b w)) = isUsersLoading (current w)"
  "isStatusesLoading (rendered (render a b w)) = isStatusesLoading (current w)"
  by (simp_all add: render_def Let_def commit_frame)

lemma commit_tabRef:
  assumes "tabRef w = tab (rendered w)"
  shows "tabRef (commit a b w) = tab (rendered (commit a b w))"
  using assms by (simp add: effect_defs Let_def)

lemma render_tabRef:
  assumes "tabRef w = tab (rendered w)"
  shows "tabRef (render a b w) = tab (rendered (render a b w))"
  using assms by (simp add: render_def Let_def commit_tabRef)

lemma reachable_tabRef: "reachable w \<Longrightarrow> tabRef w = tab (rendered w)"
proof (induction rule: reachable.induct)
  case (r_mount ids page)
  show ?case by (simp add: mount_def effect_defs Let_def)
next
  case (r_render w newSel newPage)
  from r_render.IH show ?case by (rule render_tabRef)
qed (simp_all add: setTab_def setInspectorContentHeight_def currentLoadStatuses_def
      currentLoadUsers_def loadStatuses_def loadUsers_def statusesFulfilled_def
      statusesRejected_def usersFulfilled_def usersRejected_def setIsStatusesLoading_def
      setIsUsersLoading_def setStatuses_def setUsers_def Let_def)

lemma commit_selection_tab:
  assumes "tabRef w = tab (rendered w)"
  shows "tab (current (commit (Some ids) None w)) =
           (if ids \<noteq> [] \<and> tab (current w) = DOCUMENT then DESIGN else tab (current w))"
  using assms by (simp add: effect_defs Let_def)

lemma commit_plain_tab: "tab (current (commit None None w)) = tab (current w)"
  by (simp add: effect_defs Let_def)

text \<open>
  Claim C3, as the code has it. When the provider renders with a new \<open>selectedElementIds\<close>
  array, whatever the array was before: if the new array is not empty and the tab is
  \<open>document\<close>, the tab becomes \<open>design\<close>; otherwise (the tab is \<open>design\<close> or
  \<open>prepublish\<close>, or the new array is empty) the tab stays as it is.
\<close>

theorem selection_change_resets_document_tab:
  assumes "reachable w"
  shows "tab (current (render (Some ids) None w)) =
           (if ids \<noteq> [] \<and> tab (current w) = DOCUMENT then DESIGN else tab (current w))"
proof -
  have "tabRef w = tab (rendered w)"
    using assms by (rule reachable_tabRef)
  then have c: "tab (current (commit (Some ids) None w)) =
           (if ids \<noteq> [] \<and> tab (current w) = DOCUMENT then DESIGN else tab (current w))"
    by (rule commit_selection_tab)
  have "tab (current (render (Some ids) None w)) = tab (current (commit (Some ids) None w))"
  proof (cases "current (commit (Some ids) None w) \<noteq> rendered (commit (Some ids) None w)")
    case True
    then show ?thesis by (simp add: render_def Let_def commit_plain_tab)
  next
    case False
    then show ?thesis by (simp add: render_def Let_def)
  qed
  with c show ?thesis by simp
qed

lemma document_tab_on_selection_eval:
  "selectedElementIds document_tab_on_selection = [''a'']"
  "tab (current document_tab_on_selection) = DOCUMENT"
  by (simp_all add: document_tab_on_selection_def mount_def render_def effect_defs Let_def)

theorem selection_change_resets_document_tab_witness:
  "reachable document_tab_on_selection
   \<and> tab (current (render (Some [''a'', ''b'']) None document_tab_on_selection)) = DESIGN
   \<and> tab (current (render (Some []) None document_tab_on_selection)) = DOCUMENT"
proof -
  have r: "reachable document_tab_on_selection"
    unfolding document_tab_on_selection_def
    by (intro r_render r_setTab r_mount)
  from selection_change_resets_document_tab [OF r, of "[''a'', ''b'']"]
    selection_change_resets_document_tab [OF r, of "[]"] r
  show ?thesis by (simp add: document_tab_on_selection_eval)
qed

text \<open>
  The effect does not look at the previous selection: with element \<open>a\<close> selected and the
  document tab open, selecting \<open>b\<close> instead resets the tab, although the selection was
  not empty before.
\<close>

theorem selection_non_empty_to_non_empty_counterexample:
  "selectedElementIds document_tab_on_selection = [''a'']
   \<and> tab (current document_tab_on_selection) = DOCUMENT
   \<and> tab (current (render (Some [''b'']) None document_tab_on_selection)) = DESIGN"
  by (simp add: document_tab_on_selection_def mount_def render_def effect_defs Let_def)

text \<open>
  The guard of \<open>loadStatuses\<close> reads the cells its render saw. Invoked twice with no
  render in between, the callback passes its guard both times.
\<close>

theorem loadStatuses_twice_same_render_counterexample:
  "statusFetches (loadStatuses (rendered fresh_inspector)
      (loadStatuses (rendered fresh_inspector) fresh_inspector)) = 2"
  by (simp add: fresh_inspector_def mount_def effect_defs loadStatuses_def
      setIsStatusesLoading_def Let_def)

lemma pending_step_loading:
  assumes "isStatusesLoading (rendered w)" and "isStatusesLoading (current w)"
  shows "isStatusesLoading (rendered (pending_step e w))
         \<and> isStatusesLoading (current (pending_step e w))
         \<and> statusFetches (pending_step e w) = statusFetches w"
proof (cases e)
  case CallLoadStatuses
  with assms show ?thesis by (simp add: currentLoadStatuses_def loadStatuses_def)
next
  case CallLoadUsers
  with assms show ?thesis
    by (simp add: currentLoadUsers_def loadUsers_def setIsUsersLoading_def)
next
  case (Rerender a b)
  with assms show ?thesis by (simp add: render_frame render_rendered)
qed

lemma pending_run_loading:
  assumes "isStatusesLoading (rendered w)" and "isStatusesLoading (current w)"
  shows "statusFetches (pending_run es w) = statusFetches w"
  using assms
proof (induction es arbitrary: w)
  case Nil
  show ?case by (simp add: pending_run_def)
next
  case (Cons e es)
  have step: "isStatusesLoading (rendered (pending_step e w))
         \<and> isStatusesLoading (current (pending_step e w))
         \<and> statusFetches (pending_step e w) = statusFetches w"
    using Cons.prems by (rule pending_step_loading)
  have "pending_run (e # es) w = pending_run es (pending_step e w)"
    by (simp add: pending_run_def)
  with Cons.IH [of "pending_step e w"] step show ?case by simp
qed

text \<open>
  Claim C2, as the code has it. When the latest render saw the status list empty and not
  loading, \<open>loadStatuses\<close> is invoked, the provider renders again, and then, before the
  fetch settles, the \<open>loadStatuses\<close> and \<open>loadUsers\<close> of the latest render are invoked and
  the provider renders any number of times, \<open>getAllStatuses\<close> has been invoked exactly once.
\<close>

theorem loadStatuses_once_while_pending:
  assumes "\<not> isStatusesLoading (rendered w)" and "statuses (rendered w) = []"
  shows "statusFetches (pending_run (CallLoadStatuses # Rerender newSel newPage # es) w)
           = Suc (statusFetches w)"
proof -
  let ?w1 = "currentLoadStatuses w"
  let ?w2 = "render newSel newPage ?w1"
  have w1: "isStatusesLoading (current ?w1) \<and> statusFetches ?w1 = Suc (statusFetches w)"
    using assms by (simp add: currentLoadStatuses_def loadStatuses_def setIsStatusesLoading_def)
  then have w2: "isStatusesLoading (rendered ?w2) \<and> isStatusesLoading (current ?w2)
      \<and> statusFetches ?w2 = Suc (statusFetches w)"
    by (simp add: render_frame render_rendered)
  have "pending_run (CallLoadStatuses # Rerender newSel newPage # es) w = pending_run es ?w2"
    by (simp add: pending_run_def)
  with w2 pending_run_loading [of ?w2 es] show ?thesis by simp
qed

theorem loadStatuses_once_while_pending_witness:
  "\<not> isStatusesLoading (rendered fresh_inspector) \<and> statuses (rendered fresh_inspector) = []
   \<and> statusFetches fresh_inspector = 0
   \<and> statusFetches (pending_run [CallLoadStatuses, Rerender None None, CallLoadStatuses,
        CallLoadStatuses] fresh_inspector) = 1"
proof -
  have a: "\<not> isStatusesLoading (rendered fresh_inspector)"
    by (simp add: fresh_inspector_def mount_def effect_defs Let_def)
  have b: "statuses (rendered fresh_inspector) = []"
    by (simp add: fresh_inspector_def mount_def effect_defs Let_def)
  have c: "statusFetches fresh_inspector = 0"
    by (simp add: fresh_inspector_def mount_def effect_defs Let_def)
  from loadStatuses_once_while_pending [OF a b, of None None "[CallLoadStatuses, CallLoadStatuses]"]
    a b c show ?thesis by simp
qed

lemmas settle_defs = statusesFulfilled_def statusesRejected_def usersFulfilled_def
  usersRejected_def setIsStatusesLoading_def setIsUsersLoading_def setStatuses_def setUsers_def

text \<open>
  Claim C8. When the fetch started by \<open>loadStatuses\<close> on a fresh provider is fulfilled with
  the records \<open>draft\<close> (not shown in lists) and \<open>publish\<close> (shown), the stored list is the
  one entry for \<open>publish\<close>; for every response, the stored list is the records whose
  \<open>show_in_list\<close> is truthy, in the order of \<open>Object.values\<close>, each as value \<open>slug\<close> and
  name \<open>name\<close>.
\<close>

theorem statuses_fulfilled_keeps_listed:
  "statuses (current (statusesFulfilled
       [(''draft'', \<lparr>slug = ''draft'', status_name = ''Draft'', show_in_list = JBool False\<rparr>),
        (''publish'', \<lparr>slug = ''publish'', status_name = ''Published'', show_in_list = JBool True\<rparr>)]
       (currentLoadStatuses fresh_inspector)))
     = [\<lparr>item_value = ''publish'', item_name = ''Published''\<rparr>]
   \<and> statuses (current (statusesFulfilled data w))
     = map (\<lambda>r. \<lparr>item_value = slug r, item_name = status_name r\<rparr>)
         (filter (\<lambda>r. truthy (show_in_list r)) (Object_values data))"
  by (simp add: settle_defs Let_def Object_values_def)

text \<open>
  Claim C9. When a status (user) fetch is rejected while the status (user) list is empty,
  the loading flag is cleared, the list is still empty, and the \<open>loadStatuses\<close>
  (\<open>loadUsers\<close>) of the render that follows invokes the fetch capability once more. The
  flag is cleared on fulfilment as well.
\<close>

theorem rejected_fetch_clears_flag_and_retries:
  "(statuses (current w) = [] \<longrightarrow>
      \<not> isStatusesLoading (current (statusesRejected w))
      \<and> statuses (current (statusesRejected w)) = []
      \<and> statusFetches (currentLoadStatuses (render newSel newPage (statusesRejected w)))
          = Suc (statusFetches w))
   \<and> (users (current w) = [] \<longrightarrow>
      \<not> isUsersLoading (current (usersRejected w))
      \<and> users (current (usersRejected w)) = []
      \<and> userFetches (currentLoadUsers (render newSel newPage (usersRejected w)))
          = Suc (userFetches w))
   \<and> \<not> isStatusesLoading (current (statusesFulfilled sdata w))
   \<and> \<not> isUsersLoading (current (usersFulfilled udata w))"
proof -
  have s: "statuses (current w) = [] \<Longrightarrow>
      statusFetches (currentLoadStatuses (render newSel newPage (statusesRejected w)))
          = Suc (statusFetches w)"
    by (simp add: currentLoadStatuses_def loadStatuses_def render_rendered render_frame)
       (simp add: settle_defs)
  have u: "users (current w) = [] \<Longrightarrow>
      userFetches (currentLoadUsers (render newSel newPage (usersRejected w)))
          = Suc (userFetches w)"
    by (simp add: currentLoadUsers_def loadUsers_def render_rendered render_frame)
       (simp add: settle_defs)
  from s u show ?thesis by (simp add: settle_defs Let_def)
qed

lemma fresh_inspector_eval:
  "current fresh_inspector = \<lparr>tab = DESIGN, users = [], statuses = [], inspectorContentHeight = None,
               isUsersLoading = False, isStatusesLoading = False\<rparr>"
  "rendered fresh_inspector = current fresh_inspector"
  "statusFetches fresh_inspector = 0"
  "userFetches fresh_inspector = 0"
  by (simp_all add: fresh_inspector_def mount_def effect_defs Let_def)

theorem rejected_fetch_clears_flag_and_retries_witness:
  "statuses (current (currentLoadUsers (currentLoadStatuses fresh_inspector))) = []
   \<and> users (current (currentLoadUsers (currentLoadStatuses fresh_inspector))) = []
   \<and> isStatusesLoading (current (currentLoadUsers (currentLoadStatuses fresh_inspector)))
   \<and> isUsersLoading (current (currentLoadUsers (currentLoadStatuses fresh_inspector)))
   \<and> statusFetches (currentLoadUsers (currentLoadStatuses fresh_inspector)) = 1
   \<and> userFetches (currentLoadUsers (currentLoadStatuses fresh_inspector)) = 1
   \<and> \<not> isStatusesLoading (current (statusesRejected (currentLoadUsers (currentLoadStatuses fresh_inspector))))
   \<and> \<not> isUsersLoading (current (usersRejected (currentLoadUsers (currentLoadStatuses fresh_inspector))))
   \<and> statusFetches (currentLoadStatuses (render None None
         (statusesRejected (currentLoadUsers (currentLoadStatuses fresh_inspector))))) = 2
   \<and> userFetches (currentLoadUsers (render None None
         (usersRejected (currentLoadUsers (currentLoadStatuses fresh_inspector))))) = 2"
proof -
  let ?w = "currentLoadUsers (currentLoadStatuses fresh_inspector)"
  have e: "statuses (current ?w) = []" "users (current ?w) = []"
    "isStatusesLoading (current ?w)" "isUsersLoading (current ?w)"
    "statusFetches ?w = 1" "userFetches ?w = 1"
    by (simp_all add: currentLoadUsers_def currentLoadStatuses_def loadUsers_def
        loadStatuses_def fresh_inspector_eval setIsStatusesLoading_def setIsUsersLoading_def)
  from rejected_fetch_clears_flag_and_retries [of ?w None None "[]" "[]"] e
  show ?thesis by simp
qed

section \<open>The analytics tag: the printed configuration and the Site Kit filter\<close>

lemmas key_defs = key_of_string_def is_decimal_integer_def isRadixDigit_def digitValue_def
  digitsValue_def

lemma key_of_string_names:
  "key_of_string ''vars'' = SKey ''vars''"
  "key_of_string ''gtag_id'' = SKey ''gtag_id''"
  "key_of_string ''triggers'' = SKey ''triggers''"
  "key_of_string ''UA-123'' = SKey ''UA-123''"
  "key_of_string ''UA-9'' = SKey ''UA-9''"
  by (simp_all add: key_defs)

lemma map_of_array_set:
  "map_of (array_set a k v) k' = (if k' = k then Some v else map_of a k')"
  by (induction a k v rule: array_set.induct) auto

lemma array_get_array_set:
  "array_get (array_set a k v) k' = (if k' = k then v else array_get a k')"
  by (simp add: array_get_def map_of_array_set)

lemma array_set_others:
  "filter (\<lambda>e. fst e \<noteq> k) (array_set a k v) = filter (\<lambda>e. fst e \<noteq> k) a"
  by (induction a k v rule: array_set.induct) auto

lemma map_of_append_first:
  "map_of (xs @ ys) k = (case map_of xs k of Some v \<Rightarrow> Some v | None \<Rightarrow> map_of ys k)"
  by (induction xs) auto

lemma merge_fold_named:
  "map_of (fst (fold merge_step xs (acc, n))) (SKey s) =
     (case map_of (rev xs) (SKey s) of Some v \<Rightarrow> Some v | None \<Rightarrow> map_of acc (SKey s))"
proof (induction xs arbitrary: acc n)
  case Nil
  show ?case by simp
next
  case (Cons x xs)
  obtain k v where x: "x = (k, v)" by (cases x)
  show ?case
  proof (cases k)
    case (IKey i)
    with x Cons.IH [of "acc @ [(IKey n, v)]" "n + 1"] show ?thesis
      by (simp add: map_of_append_first del: map_of_append split: option.splits)
  next
    case (SKey t)
    with x Cons.IH [of "array_set acc (SKey t) v" n] show ?thesis
      by (simp add: map_of_append_first map_of_array_set del: map_of_append split: option.splits)
  qed
qed

lemma array_merge_keeps_second:
  assumes "array_merge (PArr a) (PArr b) = Inr m"
      and "distinct (map fst b)" and "map_of b (SKey s) = Some v"
  shows "map_of m (SKey s) = Some v"
proof -
  have "(SKey s, v) \<in> set (rev b)"
    using assms(3) by (simp add: map_of_SomeD)
  moreover have "distinct (map fst (rev b))"
    using assms(2) by (simp add: distinct_rev rev_map [symmetric])
  ultimately have "map_of (rev b) (SKey s) = Some v"
    by simp
  then have "map_of (rev (a @ b)) (SKey s) = Some v"
    by (simp add: map_of_append_first del: map_of_append)
  moreover have "m = fst (fold merge_step (a @ b) ([], 0))"
    using assms(1) by (simp del: fold_append)
  ultimately show ?thesis
    by (simp only: merge_fold_named option.case)
qed

text \<open>
  With no callback on the hook, the filter returns for every configuration whose \<open>vars\<close>
  is not a string, whose \<open>gtag_id\<close> is not an array and whose \<open>triggers\<close> is missing,
  null or an array.
\<close>

lemma default_configuration_shape:
  assumes "key_of tracking_id = Inr k"
  shows "\<exists>vars syn. get_default_configuration id tracking_id
           = Inr [(SKey ''vars'', vars), (SKey ''triggers'', PArr syn)]"
  using assms by (simp add: get_default_configuration_def)

lemma filter_site_kit_gtag_opt_returns:
  assumes "offset_get (array_get gtag_opt (SKey ''vars'')) ''gtag_id'' = Inr gtag_id"
      and "key_of gtag_id = Inr k"
      and "array_get gtag_opt (SKey ''triggers'') = PNull
           \<or> array_get gtag_opt (SKey ''triggers'') = PArr ext"
  shows "\<exists>r. filter_site_kit_gtag_opt id True gtag_opt = Inr r"
proof -
  from assms(2) obtain vars syn where
    dc: "get_default_configuration id gtag_id = Inr [(SKey ''vars'', vars), (SKey ''triggers'', PArr syn)]"
    using default_configuration_shape by blast
  have v: "offset_get (PArr gtag_opt) ''vars'' = Inr (array_get gtag_opt (SKey ''vars''))"
    by (simp add: key_of_string_names)
  have "\<exists>ext'. (if isset_key gtag_opt (SKey ''triggers'')
               then array_get gtag_opt (SKey ''triggers'') else PArr []) = PArr ext'"
    using assms(3) by (auto simp: isset_key_def array_get_def split: option.splits)
  then obtain ext' where e: "(if isset_key gtag_opt (SKey ''triggers'')
               then array_get gtag_opt (SKey ''triggers'') else PArr []) = PArr ext'"
    by blast
  have i: "isset_key [(SKey ''vars'', vars), (SKey ''triggers'', PArr syn)] (SKey ''triggers'')"
    by (simp add: isset_key_def)
  show ?thesis
    unfolding filter_site_kit_gtag_opt_def Let_def
    by (simp only: v assms(1) dc e i sum.case if_True if_False not_True_eq_False
        array_get_array_set array_merge.simps) (simp add: array_get_def)
qed

text \<open>
  The filter on \<open>site_kit_opt\<close>: it returns, the trigger \<open>storyEnd\<close> keeps its external
  value at the place of the synthesized one, and the numbered trigger comes last as number 0.
\<close>

lemma site_kit_opt_returns:
  "filter_site_kit_gtag_opt id True site_kit_opt
     = Inr (projr (filter_site_kit_gtag_opt id True site_kit_opt))"
  by (simp add: filter_site_kit_gtag_opt_def site_kit_opt_def get_default_configuration_def
      key_of_string_names array_get_def isset_key_def Let_def)

lemma site_kit_opt_merged:
  "map (\<lambda>e. (fst e, case snd e of PArr _ \<Rightarrow> PStr ''synthesized'' | x \<Rightarrow> x))
     (array_cast (array_get (projr (filter_site_kit_gtag_opt id True site_kit_opt)) (SKey ''triggers'')))
   = [(SKey ''storyProgress'', PStr ''synthesized''), (SKey ''storyEnd'', PStr ''external''),
      (SKey ''trackFocusState'', PStr ''synthesized''), (SKey ''trackClickThrough'', PStr ''synthesized''),
      (SKey ''storyOpen'', PStr ''synthesized''), (SKey ''storyClose'', PStr ''synthesized''),
      (SKey ''audioMuted'', PStr ''synthesized''), (SKey ''audioUnmuted'', PStr ''synthesized''),
      (SKey ''pageAttachmentEnter'', PStr ''synthesized''), (SKey ''pageAttachmentExit'', PStr ''synthesized''),
      (IKey 0, PInt 3)]"
  by (simp add: filter_site_kit_gtag_opt_def site_kit_opt_def get_default_configuration_def
      key_of_string_names array_get_def isset_key_def Let_def)








text \<open>
  Where \<open>triggers\<close> is set to something that is not an array, on either side,
  \<open>array_merge\<close> raises and nothing is returned.
\<close>

lemma array_merge_non_array:
  "(\<forall>a. x \<noteq> PArr a) \<or> (\<forall>b. y \<noteq> PArr b) \<Longrightarrow> array_merge x y = Inl TypeError"
  by (cases x; cases y) auto

lemma filter_site_kit_gtag_opt_raises:
  assumes "offset_get (array_get gtag_opt (SKey ''vars'')) ''gtag_id'' = Inr gtag_id"
      and "get_default_configuration flt gtag_id = Inr default_config"
      and "(array_get default_config (SKey ''triggers'') \<noteq> PNull
              \<and> (\<forall>a. array_get default_config (SKey ''triggers'') \<noteq> PArr a))
           \<or> (array_get gtag_opt (SKey ''triggers'') \<noteq> PNull
              \<and> (\<forall>b. array_get gtag_opt (SKey ''triggers'') \<noteq> PArr b))"
  shows "filter_site_kit_gtag_opt flt True gtag_opt = Inl TypeError"
proof -
  let ?T = "SKey ''triggers''"
  let ?x = "if isset_key default_config ?T then array_get default_config ?T else PArr []"
  let ?y = "if isset_key gtag_opt ?T then array_get gtag_opt ?T else PArr []"
  have v: "offset_get (PArr gtag_opt) ''vars'' = Inr (array_get gtag_opt (SKey ''vars''))"
    by (simp add: key_of_string_names)
  have "(\<forall>a. ?x \<noteq> PArr a) \<or> (\<forall>b. ?y \<noteq> PArr b)"
    using assms(3) by (auto simp: isset_key_def array_get_def split: option.splits)
  then have m: "array_merge ?x ?y = Inl TypeError"
    by (rule array_merge_non_array)
  show ?thesis
    unfolding filter_site_kit_gtag_opt_def Let_def
    by (simp only: v assms(1,2) sum.case if_False not_True_eq_False array_get_array_set
        if_True refl m)
qed

text \<open>
  Claim C10. On a view that is not a single story the input is returned as it is. On a
  single-story view, the returned array has, under every key other than \<open>triggers\<close>, what
  the input has there (\<open>vars\<close> included), and its entries other than \<open>triggers\<close> are those
  of the input in the same order.
\<close>

theorem filter_site_kit_gtag_opt_frame:
  "filter_site_kit_gtag_opt flt False gtag_opt = Inr gtag_opt
   \<and> (filter_site_kit_gtag_opt flt True gtag_opt = Inr r \<longrightarrow>
        (\<forall>k. k \<noteq> SKey ''triggers'' \<longrightarrow> map_of r k = map_of gtag_opt k)
        \<and> filter (\<lambda>e. fst e \<noteq> SKey ''triggers'') r
            = filter (\<lambda>e. fst e \<noteq> SKey ''triggers'') gtag_opt)"
  by (auto simp: filter_site_kit_gtag_opt_def Let_def map_of_array_set array_set_others
      split: sum.splits)

theorem filter_site_kit_gtag_opt_frame_witness:
  "filter_site_kit_gtag_opt id False site_kit_opt = Inr site_kit_opt
   \<and> filter_site_kit_gtag_opt id True site_kit_opt
       = Inr (projr (filter_site_kit_gtag_opt id True site_kit_opt))
   \<and> map_of (projr (filter_site_kit_gtag_opt id True site_kit_opt)) (SKey ''vars'')
       = Some (PArr [(SKey ''gtag_id'', PStr ''UA-9'')])
   \<and> filter (\<lambda>e. fst e \<noteq> SKey ''triggers'') (projr (filter_site_kit_gtag_opt id True site_kit_opt))
       = [(SKey ''vars'', PArr [(SKey ''gtag_id'', PStr ''UA-9'')]),
          (SKey ''optoutElementId'', PStr ''__gaOptOutExtension'')]"
proof -
  have g: "map_of site_kit_opt (SKey ''vars'') = Some (PArr [(SKey ''gtag_id'', PStr ''UA-9'')])"
    "filter (\<lambda>e. fst e \<noteq> SKey ''triggers'') site_kit_opt
       = [(SKey ''vars'', PArr [(SKey ''gtag_id'', PStr ''UA-9'')]),
          (SKey ''optoutElementId'', PStr ''__gaOptOutExtension'')]"
    by (simp_all add: site_kit_opt_def)
  from filter_site_kit_gtag_opt_frame [of id site_kit_opt
      "projr (filter_site_kit_gtag_opt id True site_kit_opt)"] site_kit_opt_returns g
  show ?thesis by simp
qed

text \<open>
  Claim C1, as the code has it. When the tracking ID is \<open>UA-123\<close>, Site Kit's analytics
  module is not active and no callback is registered on
  \<open>web_stories_analytics_configuration\<close>, the action prints a configuration whose
  \<open>vars.gtag_id\<close> is \<open>UA-123\<close> and whose triggers are exactly the ten named
  \<open>storyProgress\<close>, \<open>storyEnd\<close>, \<open>trackFocusState\<close>, \<open>trackClickThrough\<close>, \<open>storyOpen\<close>,
  \<open>storyClose\<close>, \<open>audioMuted\<close>, \<open>audioUnmuted\<close>, \<open>pageAttachmentEnter\<close> and
  \<open>pageAttachmentExit\<close>, in this order.
\<close>

theorem print_analytics_tag_ua123:
  assumes "get_tracking_id setting_name env = ''UA-123''"
      and "\<not> is_site_kit_analytics_module_active env"
  shows "print_analytics_tag id setting_name env \<noteq> Inr None
   \<and> printed_gtag_id (print_analytics_tag id setting_name env) = PStr ''UA-123''
   \<and> printed_trigger_keys (print_analytics_tag id setting_name env)
       = [SKey ''storyProgress'', SKey ''storyEnd'', SKey ''trackFocusState'',
          SKey ''trackClickThrough'', SKey ''storyOpen'', SKey ''storyClose'',
          SKey ''audioMuted'', SKey ''audioUnmuted'', SKey ''pageAttachmentEnter'',
          SKey ''pageAttachmentExit'']"
  using assms
  by (simp add: print_analytics_tag_def string_is_truthy_def get_default_configuration_def
      key_of_string_names printed_gtag_id_def printed_trigger_keys_def vars_gtag_id_def
      trigger_keys_def array_get_def Let_def)

lemma ua123_env_eval:
  "get_tracking_id ''web_stories_ga_tracking_id'' ua123_env = ''UA-123''"
  "\<not> is_site_kit_analytics_module_active ua123_env"
  by (simp_all add: get_tracking_id_def get_option_def ua123_env_def
      is_site_kit_analytics_module_active_def get_site_kit_active_modules_option_def)

theorem print_analytics_tag_ua123_witness:
  "get_tracking_id ''web_stories_ga_tracking_id'' ua123_env = ''UA-123''
   \<and> \<not> is_site_kit_analytics_module_active ua123_env
   \<and> printed_gtag_id (print_analytics_tag id ''web_stories_ga_tracking_id'' ua123_env) = PStr ''UA-123''
   \<and> hd (printed_trigger_keys (print_analytics_tag id ''web_stories_ga_tracking_id'' ua123_env))
       = SKey ''storyProgress''"
  using print_analytics_tag_ua123 [OF ua123_env_eval] ua123_env_eval by simp

text \<open>
  The configuration printed for \<open>UA-123\<close> has ten triggers, not nine: open and close, mute
  and unmute, enter and exit are two triggers each.
\<close>

theorem nine_triggers_counterexample:
  "get_tracking_id ''web_stories_ga_tracking_id'' ua123_env = ''UA-123''
   \<and> \<not> is_site_kit_analytics_module_active ua123_env
   \<and> length (printed_trigger_keys (print_analytics_tag id ''web_stories_ga_tracking_id'' ua123_env)) = 10"
  by (simp add: ua123_env_eval print_analytics_tag_def string_is_truthy_def
      get_default_configuration_def key_of_string_names printed_trigger_keys_def
      trigger_keys_def array_get_def Let_def)

end
